theory Spec2Isabelle
  imports Main
begin

section \<open>JavaScript values, errors and rows\<close>

text \<open>
  The handlers pass JavaScript values around. Only the shapes the handlers can tell apart
  are kept: \<open>undefined\<close>, \<open>null\<close>, a string, a \<open>Date\<close> whose time value is a
  number of milliseconds, and a \<open>Date\<close> whose time value is \<open>NaN\<close> (an invalid date).
  Time values of dates are integers in ECMAScript, so they are modelled by \<open>int\<close>.
\<close>

datatype js_value = JUndefined | JNull | JString string | JDate int | JInvalidDate

text \<open>
  A JavaScript number is an IEEE 754 double. \<open>Num m e\<close> is the number \<open>m * 2^e\<close>;
  it is a double when \<open>\<bar>m\<bar> < 2^53\<close> and \<open>-1074 \<le> e \<le> 971\<close>, and a whole number
  below \<open>2^53\<close> in magnitude is \<open>Num m 0\<close>. The other three values are the two
  infinities and \<open>NaN\<close>.
\<close>

datatype js_number = Num int int | PlusInfinity | MinusInfinity | NaN

text \<open>
  Every \<open>throw\<close> of the two source files is one constructor. The first file throws
  \<open>new Error(name)\<close>, the second throws instances of named classes. \<open>TypeError\<close> is
  what the JavaScript runtime raises when a property of \<open>undefined\<close> is read.
\<close>

datatype error =
    invalid_email
  | invalid_credentials
  | email_unavailable
  | weak_password
  | email_verified_already
  | invalid_token
  | invalid_magic_link
  | invalid_personal_informations
  | NotFoundError
  | InvalidTokenError
  | OfficialContactEmailVerificationNotNeededError
  | ApiAnnuaireError
  | TypeError

text \<open>
  A row of the users table. The column \<open>id\<close> is called \<open>uid\<close> here, since \<open>id\<close> is
  the identity function of HOL. A column that holds SQL \<open>NULL\<close> is \<open>None\<close> for a
  string column and \<open>JNull\<close> for a timestamp column.
\<close>

record user =
  uid :: nat
  email :: string
  encrypted_password :: "string option"
  email_verified :: bool
  sign_in_count :: int
  last_sign_in_at :: js_value
  verify_email_token :: "string option"
  verify_email_sent_at :: js_value
  magic_link_token :: "string option"
  magic_link_sent_at :: js_value
  reset_password_token :: "string option"
  reset_password_sent_at :: js_value
  given_name :: js_value
  family_name :: js_value
  phone_number :: js_value
  job :: js_value

text \<open>A row of the table that links a user to an organization.\<close>

record user_organization_link =
  link_organization_id :: nat
  link_user_id :: nat
  needs_official_contact_email_verification :: bool
  official_contact_email_verification_token :: "string option"
  official_contact_email_verification_sent_at :: js_value

record organization =
  organization_id :: nat
  cached_code_officiel_geographique :: "string option"
  cached_libelle :: "string option"

text \<open>
  The object literal given to \<open>update\<close> is a list of column assignments, in the order
  of the literal.
\<close>

datatype user_change =
    Set_encrypted_password "string option"
  | Set_email_verified bool
  | Set_sign_in_count int
  | Set_last_sign_in_at js_value
  | Set_verify_email_token "string option"
  | Set_verify_email_sent_at js_value
  | Set_magic_link_token "string option"
  | Set_magic_link_sent_at js_value
  | Set_reset_password_token "string option"
  | Set_reset_password_sent_at js_value
  | Set_given_name js_value
  | Set_family_name js_value
  | Set_phone_number js_value
  | Set_job js_value

datatype link_change =
    Set_needs_official_contact_email_verification bool
  | Set_official_contact_email_verification_token "string option"
  | Set_official_contact_email_verification_sent_at js_value

record mail =
  to :: "string list"
  subject :: string
  template :: string
  params :: "(string \<times> js_value) list"

text \<open>
  Every call of a collaborator (repository, security service, directory connector, mail
  connector) leaves one event in the trace of the world, in call order.
\<close>

datatype event =
    FindByEmail string
  | FindByVerifyEmailToken string
  | FindByMagicLinkToken string
  | FindByResetPasswordToken string
  | Create string "string option"
  | Update nat "user_change list"
  | GetUsers nat
  | FindOrganizationById nat
  | UpdateUserOrganizationLink nat nat "link_change list"
  | GetContactEmail "string option"
  | IsEmailSafeToSendTransactional string
  | GenerateToken
  | GeneratePinToken
  | GenerateDicewarePassword
  | SendMail mail

record world =
  users :: "user list"
  next_id :: nat
  users_organizations :: "user_organization_link list"
  organizations :: "organization list"
  now :: int
  rng :: nat
  trace :: "event list"

text \<open>
  The collaborators that compute without touching the tables are parameters: nothing is
  assumed about them. A token generator maps the state of the random source to the token
  it returns. \<open>getContactEmail\<close> yields \<open>None\<close> where the connector throws.
\<close>

record services =
  isPasswordSecure :: "string \<Rightarrow> bool"
  hashPassword :: "string \<Rightarrow> string"
  validatePassword :: "string \<Rightarrow> string option \<Rightarrow> bool"
  isPhoneNumberValid :: "js_value \<Rightarrow> bool"
  isEmailSafeToSendTransactional :: "string \<Rightarrow> bool"
  generateToken :: "nat \<Rightarrow> string"
  generatePinToken :: "nat \<Rightarrow> string"
  generateDicewarePassword :: "nat \<Rightarrow> string"
  getContactEmail :: "string option \<Rightarrow> string option"
  API_AUTH_HOST :: string

section \<open>The expiration predicate\<close>

definition RESET_PASSWORD_TOKEN_EXPIRATION_DURATION_IN_MINUTES :: js_number where
  "RESET_PASSWORD_TOKEN_EXPIRATION_DURATION_IN_MINUTES = Num 60 0"

definition VERIFY_EMAIL_TOKEN_EXPIRATION_DURATION_IN_MINUTES :: js_number where
  "VERIFY_EMAIL_TOKEN_EXPIRATION_DURATION_IN_MINUTES = Num 60 0"

definition MAGIC_LINK_TOKEN_EXPIRATION_DURATION_IN_MINUTES :: js_number where
  "MAGIC_LINK_TOKEN_EXPIRATION_DURATION_IN_MINUTES = Num 10 0"

definition OFFICIAL_CONTACT_EMAIL_VERIFICATION_TOKEN_EXPIRATION_DURATION_IN_MINUTES :: js_number where
  "OFFICIAL_CONTACT_EMAIL_VERIFICATION_TOKEN_EXPIRATION_DURATION_IN_MINUTES = Num 60 0"

text \<open>
  Arithmetic on numbers rounds to the nearest double, ties to the even significand.
  \<open>bit_length n\<close> is the number of binary digits of \<open>n\<close>; \<open>round_half_even x k\<close> is
  \<open>x / 2^k\<close> rounded to the nearest integer, ties to even; \<open>double_of_int x\<close> is the
  double nearest to the integer \<open>x\<close>, which keeps 53 binary digits. The integers met
  here (differences of time values, a counter plus one) are far below \<open>2^1024\<close>, where
  a double overflows.
\<close>

fun bit_length :: "nat \<Rightarrow> nat" where
  "bit_length n = (if n = 0 then 0 else Suc (bit_length (n div 2)))"

declare bit_length.simps [simp del]

definition round_half_even :: "int \<Rightarrow> nat \<Rightarrow> int" where
  "round_half_even x k =
     (let q = x div 2 ^ k; r = x mod 2 ^ k
      in if 2 * r < 2 ^ k then q
         else if 2 * r > 2 ^ k then q + 1
         else if even q then q else q + 1)"

definition double_of_int :: "int \<Rightarrow> int" where
  "double_of_int x = (let k = bit_length (nat \<bar>x\<bar>) - 53 in round_half_even x k * 2 ^ k)"

text \<open>
  \<open>d * 60e3\<close>: the significand is multiplied by 60000 and rounded, the exponent stays,
  and a result of \<open>2^1024\<close> or more in magnitude is an infinity.
\<close>

fun times_60e3 :: "js_number \<Rightarrow> js_number" where
  "times_60e3 (Num m e) =
     (let p = double_of_int (m * 60000)
      in if 0 \<le> e \<and> 2 ^ 1024 \<le> \<bar>p\<bar> * 2 ^ nat e
         then (if 0 < p then PlusInfinity else MinusInfinity)
         else Num p e)"
| "times_60e3 d = d"

text \<open>\<open>x > y\<close> for a whole number \<open>x\<close> and a number \<open>y\<close>; no rounding is involved.\<close>

fun js_gt :: "int \<Rightarrow> js_number \<Rightarrow> bool" where
  "js_gt x (Num m e) = (if 0 \<le> e then m * 2 ^ nat e < x else m < x * 2 ^ nat (- e))"
| "js_gt x PlusInfinity = False"
| "js_gt x MinusInfinity = True"
| "js_gt x NaN = False"

text \<open>\<open>v instanceof Date\<close>.\<close>

fun instanceof_Date :: "js_value \<Rightarrow> bool" where
  "instanceof_Date (JDate t) = True"
| "instanceof_Date JInvalidDate = True"
| "instanceof_Date v = False"

text \<open>
  \<open>nowDate - emittedDate\<close> for a valid \<open>nowDate\<close> with time value \<open>n\<close>: the
  difference of the time values, rounded to a double, and \<open>NaN\<close> (\<open>None\<close>) when the
  second operand does not convert to a time value. A time value is a whole number of at
  most 8640000000000000 in magnitude, so it is a double itself.
\<close>

fun date_minus :: "int \<Rightarrow> js_value \<Rightarrow> int option" where
  "date_minus n (JDate t) = Some (double_of_int (n - t))"
| "date_minus n v = None"

text \<open>
  \<open>isExpired\<close>, with the reading of the clock (\<open>new Date()\<close>) as its first argument.
  A comparison with \<open>NaN\<close> is false.
\<close>

definition isExpired :: "int \<Rightarrow> js_value \<Rightarrow> js_number \<Rightarrow> bool" where
  "isExpired nowDate emittedDate expirationDurationInMinutes =
     (if \<not> instanceof_Date emittedDate then True
      else (case date_minus nowDate emittedDate of
              None \<Rightarrow> False
            | Some d \<Rightarrow> js_gt d (times_60e3 expirationDurationInMinutes)))"

section \<open>The repositories and connectors\<close>

definition emit :: "event \<Rightarrow> world \<Rightarrow> world" where
  "emit ev s = s\<lparr>trace := trace s @ [ev]\<rparr>"

text \<open>
  Modelled from the spec: the user repository (\<open>../repositories/user\<close>) is not among
  the source files. It exposes lookup-by-email, lookup-by-token (per token kind), create
  and update-by-id. A lookup returns the first matching row, or \<open>undefined\<close>
  (\<open>None\<close>) when no row matches, which is what \<open>isEmpty\<close> tests for in the handlers.
\<close>

definition findByEmail :: "string \<Rightarrow> world \<Rightarrow> user option \<times> world" where
  "findByEmail e s = (find (\<lambda>u. email u = e) (users s), emit (FindByEmail e) s)"

definition findByVerifyEmailToken :: "string \<Rightarrow> world \<Rightarrow> user option \<times> world" where
  "findByVerifyEmailToken t s =
     (find (\<lambda>u. verify_email_token u = Some t) (users s), emit (FindByVerifyEmailToken t) s)"

definition findByMagicLinkToken :: "string \<Rightarrow> world \<Rightarrow> user option \<times> world" where
  "findByMagicLinkToken t s =
     (find (\<lambda>u. magic_link_token u = Some t) (users s), emit (FindByMagicLinkToken t) s)"

definition findByResetPasswordToken :: "string \<Rightarrow> world \<Rightarrow> user option \<times> world" where
  "findByResetPasswordToken t s =
     (find (\<lambda>u. reset_password_token u = Some t) (users s), emit (FindByResetPasswordToken t) s)"

fun apply_user_change :: "user_change \<Rightarrow> user \<Rightarrow> user" where
  "apply_user_change (Set_encrypted_password v) u = u\<lparr>encrypted_password := v\<rparr>"
| "apply_user_change (Set_email_verified v) u = u\<lparr>email_verified := v\<rparr>"
| "apply_user_change (Set_sign_in_count v) u = u\<lparr>sign_in_count := v\<rparr>"
| "apply_user_change (Set_last_sign_in_at v) u = u\<lparr>last_sign_in_at := v\<rparr>"
| "apply_user_change (Set_verify_email_token v) u = u\<lparr>verify_email_token := v\<rparr>"
| "apply_user_change (Set_verify_email_sent_at v) u = u\<lparr>verify_email_sent_at := v\<rparr>"
| "apply_user_change (Set_magic_link_token v) u = u\<lparr>magic_link_token := v\<rparr>"
| "apply_user_change (Set_magic_link_sent_at v) u = u\<lparr>magic_link_sent_at := v\<rparr>"
| "apply_user_change (Set_reset_password_token v) u = u\<lparr>reset_password_token := v\<rparr>"
| "apply_user_change (Set_reset_password_sent_at v) u = u\<lparr>reset_password_sent_at := v\<rparr>"
| "apply_user_change (Set_given_name v) u = u\<lparr>given_name := v\<rparr>"
| "apply_user_change (Set_family_name v) u = u\<lparr>family_name := v\<rparr>"
| "apply_user_change (Set_phone_number v) u = u\<lparr>phone_number := v\<rparr>"
| "apply_user_change (Set_job v) u = u\<lparr>job := v\<rparr>"

definition apply_user_changes :: "user_change list \<Rightarrow> user \<Rightarrow> user" where
  "apply_user_changes cs u = fold apply_user_change cs u"

text \<open>
  Modelled from the spec: \<open>update(id, fields)\<close> writes the given columns of the rows
  with that id in one statement and returns the updated row.
\<close>

definition update :: "nat \<Rightarrow> user_change list \<Rightarrow> world \<Rightarrow> user option \<times> world" where
  "update i cs s =
     (let us = map (\<lambda>u. if uid u = i then apply_user_changes cs u else u) (users s)
      in (find (\<lambda>u. uid u = i) us, emit (Update i cs) (s\<lparr>users := us\<rparr>)))"

text \<open>
  Modelled from the spec: \<open>create\<close> inserts a row with a fresh id, the given email and
  password hash, and every other column at its default: not verified, no sign-in, every
  token and every timestamp \<open>NULL\<close>.
\<close>

definition create :: "string \<Rightarrow> string option \<Rightarrow> world \<Rightarrow> user \<times> world" where
  "create e pw s =
     (let u = \<lparr>uid = next_id s, email = e, encrypted_password = pw, email_verified = False,
                sign_in_count = 0, last_sign_in_at = JNull,
                verify_email_token = None, verify_email_sent_at = JNull,
                magic_link_token = None, magic_link_sent_at = JNull,
                reset_password_token = None, reset_password_sent_at = JNull,
                given_name = JNull, family_name = JNull, phone_number = JNull, job = JNull\<rparr>
      in (u, emit (Create e pw) (s\<lparr>users := users s @ [u], next_id := Suc (next_id s)\<rparr>)))"

text \<open>
  Modelled from the spec: the organization repository is not among the source files. It
  exposes lookup-by-id and per-member update. \<open>getUsers\<close> returns the members of an
  organization, each as the user's row joined with the link's row.
\<close>

definition getUsers :: "nat \<Rightarrow> world \<Rightarrow> (user \<times> user_organization_link) list \<times> world" where
  "getUsers oid s =
     (concat (map (\<lambda>l. map (\<lambda>u. (u, l)) (filter (\<lambda>u. uid u = link_user_id l) (users s)))
                  (filter (\<lambda>l. link_organization_id l = oid) (users_organizations s))),
      emit (GetUsers oid) s)"

definition findOrganizationById :: "nat \<Rightarrow> world \<Rightarrow> organization option \<times> world" where
  "findOrganizationById oid s =
     (find (\<lambda>g. organization_id g = oid) (organizations s), emit (FindOrganizationById oid) s)"

fun apply_link_change :: "link_change \<Rightarrow> user_organization_link \<Rightarrow> user_organization_link" where
  "apply_link_change (Set_needs_official_contact_email_verification v) l =
     l\<lparr>needs_official_contact_email_verification := v\<rparr>"
| "apply_link_change (Set_official_contact_email_verification_token v) l =
     l\<lparr>official_contact_email_verification_token := v\<rparr>"
| "apply_link_change (Set_official_contact_email_verification_sent_at v) l =
     l\<lparr>official_contact_email_verification_sent_at := v\<rparr>"

definition apply_link_changes :: "link_change list \<Rightarrow> user_organization_link \<Rightarrow> user_organization_link" where
  "apply_link_changes cs l = fold apply_link_change cs l"

definition is_link :: "nat \<Rightarrow> nat \<Rightarrow> user_organization_link \<Rightarrow> bool" where
  "is_link oid i l = (link_organization_id l = oid \<and> link_user_id l = i)"

definition updateUserOrganizationLink ::
  "nat \<Rightarrow> nat \<Rightarrow> link_change list \<Rightarrow> world \<Rightarrow> user_organization_link option \<times> world" where
  "updateUserOrganizationLink oid i cs s =
     (let ls = map (\<lambda>l. if is_link oid i l then apply_link_changes cs l else l)
                   (users_organizations s)
      in (find (is_link oid i) ls,
          emit (UpdateUserOrganizationLink oid i cs) (s\<lparr>users_organizations := ls\<rparr>)))"

text \<open>
  Modelled from the spec: the security service (\<open>../services/security\<close>) is not among
  the source files. Its token generators return a string; here they read the random source
  and advance it, the string being the one the parameter gives for that state.
\<close>

definition gen_token :: "services \<Rightarrow> world \<Rightarrow> string \<times> world" where
  "gen_token sv s = (generateToken sv (rng s), emit GenerateToken (s\<lparr>rng := Suc (rng s)\<rparr>))"

definition gen_pin_token :: "services \<Rightarrow> world \<Rightarrow> string \<times> world" where
  "gen_pin_token sv s =
     (generatePinToken sv (rng s), emit GeneratePinToken (s\<lparr>rng := Suc (rng s)\<rparr>))"

definition gen_diceware_password :: "services \<Rightarrow> world \<Rightarrow> string \<times> world" where
  "gen_diceware_password sv s =
     (generateDicewarePassword sv (rng s), emit GenerateDicewarePassword (s\<lparr>rng := Suc (rng s)\<rparr>))"

text \<open>
  Modelled from the spec: the mail connector (\<open>../connectors/sendinblue\<close>) is not among
  the source files. It accepts a recipient list, a subject, a template name and a parameter
  mapping; a call is recorded in the trace.
\<close>

definition sendMail :: "mail \<Rightarrow> world \<Rightarrow> world" where
  "sendMail m s = emit (SendMail m) s"

section \<open>The account handlers\<close>

text \<open>
  Each handler takes the world before the request and returns what it returns or throws,
  with the world after. The clock is read at the time of the request: \<open>now\<close> is the
  value of every \<open>new Date()\<close> of one request. The users table has timestamp columns:
  the ISO string that a handler writes is read back as the \<open>Date\<close> of that instant.
  The sign-in count is a whole number held in a double, so \<open>user.sign_in_count + 1\<close>
  is the double nearest to the sum.
\<close>

definition startLogin :: "services \<Rightarrow> string \<Rightarrow> world \<Rightarrow> (error + string \<times> bool) \<times> world" where
  "startLogin sv e s0 =
     (let (user, s1) = findByEmail e s0;
          userExists = (user \<noteq> None)
      in if userExists then (Inr (e, userExists), s1)
         else (let s2 = emit (IsEmailSafeToSendTransactional e) s1
               in if \<not> isEmailSafeToSendTransactional sv e then (Inl invalid_email, s2)
                  else (Inr (e, userExists), s2)))"

definition login :: "services \<Rightarrow> string \<Rightarrow> string \<Rightarrow> world \<Rightarrow> (error + user option) \<times> world" where
  "login sv e password s0 =
     (let (user, s1) = findByEmail e s0
      in case user of
           None \<Rightarrow> (Inl invalid_credentials, s1)
         | Some u \<Rightarrow>
             (let isMatch = validatePassword sv password (encrypted_password u)
              in if \<not> isMatch then (Inl invalid_credentials, s1)
                 else (let (r, s2) = update (uid u)
                                       [Set_sign_in_count (double_of_int (sign_in_count u + 1)),
                                        Set_last_sign_in_at (JDate (now s1))] s1
                       in (Inr r, s2))))"

definition signup :: "services \<Rightarrow> string \<Rightarrow> string \<Rightarrow> world \<Rightarrow> (error + user) \<times> world" where
  "signup sv e password s0 =
     (let (user, s1) = findByEmail e s0
      in if user \<noteq> None then (Inl email_unavailable, s1)
         else if \<not> isPasswordSecure sv password then (Inl weak_password, s1)
         else (let hashedPassword = hashPassword sv password;
                   (r, s2) = create e (Some hashedPassword) s1
               in (Inr r, s2)))"

definition sendEmailAddressVerificationEmail ::
  "services \<Rightarrow> string \<Rightarrow> bool \<Rightarrow> world \<Rightarrow> (error + bool) \<times> world" where
  "sendEmailAddressVerificationEmail sv e checkBeforeSend s0 =
     (let (user, s1) = findByEmail e s0
      in case user of
           None \<Rightarrow> (Inl TypeError, s1)
         | Some u \<Rightarrow>
             if email_verified u then (Inl email_verified_already, s1)
             else if checkBeforeSend \<and>
                     \<not> isExpired (now s1) (verify_email_sent_at u)
                                  VERIFY_EMAIL_TOKEN_EXPIRATION_DURATION_IN_MINUTES
             then (Inr False, s1)
             else (let (tok, s2) = gen_pin_token sv s1;
                       (r, s3) = update (uid u)
                                   [Set_verify_email_token (Some tok),
                                    Set_verify_email_sent_at (JDate (now s2))] s2;
                       s4 = sendMail \<lparr>to = [email u],
                                       subject = ''Code de confirmation api.gouv.fr : '' @ tok,
                                       template = ''verify-email'',
                                       params = [(''verify_email_token'', JString tok)]\<rparr> s3
                   in (Inr True, s4)))"

definition verifyEmail :: "string \<Rightarrow> world \<Rightarrow> (error + user option) \<times> world" where
  "verifyEmail token s0 =
     (let (user, s1) = findByVerifyEmailToken token s0
      in case user of
           None \<Rightarrow> (Inl invalid_token, s1)
         | Some u \<Rightarrow>
             (let isTokenExpired = isExpired (now s1) (verify_email_sent_at u)
                                     VERIFY_EMAIL_TOKEN_EXPIRATION_DURATION_IN_MINUTES
              in if isTokenExpired then (Inl invalid_token, s1)
                 else (let (r, s2) = update (uid u)
                                       [Set_email_verified True,
                                        Set_verify_email_token None,
                                        Set_verify_email_sent_at JNull] s1
                       in (Inr r, s2))))"

definition sendSendMagicLinkEmail :: "services \<Rightarrow> string \<Rightarrow> world \<Rightarrow> (error + bool) \<times> world" where
  "sendSendMagicLinkEmail sv e s0 =
     (let (found, s1) = findByEmail e s0;
          (u, s2) = (case found of None \<Rightarrow> create e None s1 | Some u \<Rightarrow> (u, s1));
          (magicLinkToken, s3) = gen_token sv s2;
          (r, s4) = update (uid u)
                      [Set_magic_link_token (Some magicLinkToken),
                       Set_magic_link_sent_at (JDate (now s3))] s3;
          s5 = sendMail \<lparr>to = [email u],
                          subject = ''Connexion avec un lien magique'',
                          template = ''magic-link'',
                          params = [(''magic_link'',
                                     JString (API_AUTH_HOST sv
                                              @ ''/users/sign-in-with-magic-link?magic_link_token=''
                                              @ magicLinkToken))]\<rparr> s4
      in (Inr True, s5))"

definition loginWithMagicLink :: "string \<Rightarrow> world \<Rightarrow> (error + user option) \<times> world" where
  "loginWithMagicLink token s0 =
     (if token = [] then (Inl invalid_magic_link, s0)
      else (let (user, s1) = findByMagicLinkToken token s0
            in case user of
                 None \<Rightarrow> (Inl invalid_magic_link, s1)
               | Some u \<Rightarrow>
                   (let isTokenExpired = isExpired (now s1) (magic_link_sent_at u)
                                           MAGIC_LINK_TOKEN_EXPIRATION_DURATION_IN_MINUTES
                    in if isTokenExpired then (Inl invalid_magic_link, s1)
                       else (let (r, s2) = update (uid u)
                                             [Set_email_verified True,
                                              Set_magic_link_token None,
                                              Set_magic_link_sent_at JNull] s1
                             in (Inr r, s2)))))"

definition sendResetPasswordEmail :: "services \<Rightarrow> string \<Rightarrow> world \<Rightarrow> (error + bool) \<times> world" where
  "sendResetPasswordEmail sv e s0 =
     (let (user, s1) = findByEmail e s0
      in case user of
           None \<Rightarrow> (Inr True, s1)
         | Some u \<Rightarrow>
             (let (resetPasswordToken, s2) = gen_token sv s1;
                  (r, s3) = update (uid u)
                              [Set_reset_password_token (Some resetPasswordToken),
                               Set_reset_password_sent_at (JDate (now s2))] s2;
                  s4 = sendMail \<lparr>to = [email u],
                                  subject = ''Instructions pour la r'' @ [CHR 0xC3, CHR 0xA9]
                                            @ ''initialisation du mot de passe'',
                                  template = ''reset-password'',
                                  params = [(''reset_password_link'',
                                             JString (API_AUTH_HOST sv
                                                      @ ''/users/change-password?reset_password_token=''
                                                      @ resetPasswordToken))]\<rparr> s3
              in (Inr True, s4)))"

definition changePassword ::
  "services \<Rightarrow> string \<Rightarrow> string \<Rightarrow> world \<Rightarrow> (error + user option) \<times> world" where
  "changePassword sv token password s0 =
     (if token = [] then (Inl invalid_token, s0)
      else (let (user, s1) = findByResetPasswordToken token s0
            in case user of
                 None \<Rightarrow> (Inl invalid_token, s1)
               | Some u \<Rightarrow>
                   (let isTokenExpired = isExpired (now s1) (reset_password_sent_at u)
                                           RESET_PASSWORD_TOKEN_EXPIRATION_DURATION_IN_MINUTES
                    in if isTokenExpired then (Inl invalid_token, s1)
                       else if \<not> isPasswordSecure sv password then (Inl weak_password, s1)
                       else (let hashedPassword = hashPassword sv password;
                                 (r, s2) = update (uid u)
                                             [Set_encrypted_password (Some hashedPassword),
                                              Set_reset_password_token None,
                                              Set_reset_password_sent_at JNull] s1
                             in (Inr r, s2)))))"

fun isString :: "js_value \<Rightarrow> bool" where
  "isString (JString x) = True"
| "isString v = False"

definition updatePersonalInformations ::
  "services \<Rightarrow> nat \<Rightarrow> js_value \<Rightarrow> js_value \<Rightarrow> js_value \<Rightarrow> js_value \<Rightarrow> world
     \<Rightarrow> (error + user option) \<times> world" where
  "updatePersonalInformations sv userId given family phone jb s0 =
     (if \<not> isString given \<or> \<not> isString family \<or> \<not> isString jb
      then (Inl invalid_personal_informations, s0)
      else if \<not> isPhoneNumberValid sv phone then (Inl invalid_personal_informations, s0)
      else (let (r, s1) = update userId
                            [Set_given_name given, Set_family_name family,
                             Set_phone_number phone, Set_job jb] s0
            in (Inr r, s1)))"

section \<open>The official contact email handlers\<close>

text \<open>
  Modelled from the spec: the module \<open>../../services/is-expired\<close>, from which the second
  file imports \<open>isExpired\<close>, is not among the source files. By the spec one expiration
  predicate is used identically across all flows, so it is the \<open>isExpired\<close> of the
  first file. A member row is the pair of the user's row and the link's row.
\<close>

record send_result =
  codeSent :: bool
  contactEmail :: string
  libelle :: "string option"

definition js_of_option :: "string option \<Rightarrow> js_value" where
  "js_of_option x = (case x of None \<Rightarrow> JNull | Some v \<Rightarrow> JString v)"

definition sendOfficialContactEmailVerificationEmail ::
  "services \<Rightarrow> nat \<Rightarrow> nat \<Rightarrow> bool \<Rightarrow> world \<Rightarrow> (error + send_result) \<times> world" where
  "sendOfficialContactEmailVerificationEmail sv user_id org_id checkBeforeSend s0 =
     (let (organizationUsers, s1) = getUsers org_id s0;
          user = find (\<lambda>(u, l). uid u = user_id) organizationUsers;
          (org, s2) = findOrganizationById org_id s1
      in case (user, org) of
           (Some (u, l), Some g) \<Rightarrow>
             if \<not> needs_official_contact_email_verification l
             then (Inl OfficialContactEmailVerificationNotNeededError, s2)
             else (let s3 = emit (GetContactEmail (cached_code_officiel_geographique g)) s2
                   in case getContactEmail sv (cached_code_officiel_geographique g) of
                        None \<Rightarrow> (Inl ApiAnnuaireError, s3)
                      | Some ce \<Rightarrow>
                          if checkBeforeSend \<and>
                             \<not> isExpired (now s3) (official_contact_email_verification_sent_at l)
                                  OFFICIAL_CONTACT_EMAIL_VERIFICATION_TOKEN_EXPIRATION_DURATION_IN_MINUTES
                          then (Inr \<lparr>codeSent = False, contactEmail = ce,
                                      libelle = cached_libelle g\<rparr>, s3)
                          else (let (tok, s4) = gen_diceware_password sv s3;
                                    (r, s5) = updateUserOrganizationLink org_id user_id
                                                [Set_official_contact_email_verification_token (Some tok),
                                                 Set_official_contact_email_verification_sent_at
                                                   (JDate (now s4))] s4;
                                    s6 = sendMail
                                           \<lparr>to = [ce],
                                            subject = ''[MonComptePro] Authentifier un email sur MonComptePro'',
                                            template = ''official-contact-email-verification'',
                                            params = [(''given_name'', given_name u),
                                                      (''family_name'', family_name u),
                                                      (''email'', JString (email u)),
                                                      (''libelle'', js_of_option (cached_libelle g)),
                                                      (''official_contact_email_verification_token'',
                                                       JString tok)]\<rparr> s5
                                in (Inr \<lparr>codeSent = True, contactEmail = ce,
                                          libelle = cached_libelle g\<rparr>, s6)))
         | _ \<Rightarrow> (Inl NotFoundError, s2))"

definition verifyOfficialContactEmailToken ::
  "nat \<Rightarrow> nat \<Rightarrow> string \<Rightarrow> world \<Rightarrow> (error + user_organization_link option) \<times> world" where
  "verifyOfficialContactEmailToken user_id org_id token s0 =
     (let (organizationUsers, s1) = getUsers org_id s0;
          user = find (\<lambda>(u, l). uid u = user_id) organizationUsers;
          (org, s2) = findOrganizationById org_id s1
      in case (user, org) of
           (Some (u, l), Some g) \<Rightarrow>
             if official_contact_email_verification_token l \<noteq> Some token
             then (Inl InvalidTokenError, s2)
             else (let isTokenExpired =
                         isExpired (now s2) (official_contact_email_verification_sent_at l)
                           OFFICIAL_CONTACT_EMAIL_VERIFICATION_TOKEN_EXPIRATION_DURATION_IN_MINUTES
                   in if isTokenExpired then (Inl InvalidTokenError, s2)
                      else (let (r, s3) = updateUserOrganizationLink org_id user_id
                                            [Set_needs_official_contact_email_verification False,
                                             Set_official_contact_email_verification_token None,
                                             Set_official_contact_email_verification_sent_at JNull] s2
                            in (Inr r, s3)))
         | _ \<Rightarrow> (Inl NotFoundError, s2))"

section \<open>Requests and runs\<close>

text \<open>
  One constructor per exported handler. A run serves requests one after the other, each
  at its own reading of the clock.
\<close>

datatype request =
    StartLogin string
  | Login string string
  | Signup string string
  | SendEmailAddressVerificationEmail string bool
  | VerifyEmail string
  | SendSendMagicLinkEmail string
  | LoginWithMagicLink string
  | SendResetPasswordEmail string
  | ChangePassword string string
  | UpdatePersonalInformations nat js_value js_value js_value js_value
  | SendOfficialContactEmailVerificationEmail nat nat bool
  | VerifyOfficialContactEmailToken nat nat string

fun handle :: "services \<Rightarrow> request \<Rightarrow> world \<Rightarrow> world" where
  "handle sv (StartLogin e) s = snd (startLogin sv e s)"
| "handle sv (Login e p) s = snd (login sv e p s)"
| "handle sv (Signup e p) s = snd (signup sv e p s)"
| "handle sv (SendEmailAddressVerificationEmail e c) s =
     snd (sendEmailAddressVerificationEmail sv e c s)"
| "handle sv (VerifyEmail t) s = snd (verifyEmail t s)"
| "handle sv (SendSendMagicLinkEmail e) s = snd (sendSendMagicLinkEmail sv e s)"
| "handle sv (LoginWithMagicLink t) s = snd (loginWithMagicLink t s)"
| "handle sv (SendResetPasswordEmail e) s = snd (sendResetPasswordEmail sv e s)"
| "handle sv (ChangePassword t p) s = snd (changePassword sv t p s)"
| "handle sv (UpdatePersonalInformations i g f p j) s =
     snd (updatePersonalInformations sv i g f p j s)"
| "handle sv (SendOfficialContactEmailVerificationEmail i oid c) s =
     snd (sendOfficialContactEmailVerificationEmail sv i oid c s)"
| "handle sv (VerifyOfficialContactEmailToken i oid t) s =
     snd (verifyOfficialContactEmailToken i oid t s)"

fun run :: "services \<Rightarrow> (int \<times> request) list \<Rightarrow> world \<Rightarrow> world" where
  "run sv [] s = s"
| "run sv ((t, r) # rs) s = run sv rs (handle sv r (s\<lparr>now := t\<rparr>))"

section \<open>Reading the trace\<close>

text \<open>The events that one call adds to the trace.\<close>

definition added :: "world \<Rightarrow> world \<Rightarrow> event list" where
  "added s s' = drop (length (trace s)) (trace s')"

fun is_lookup :: "event \<Rightarrow> bool" where
  "is_lookup (FindByEmail e) = True"
| "is_lookup (FindByVerifyEmailToken t) = True"
| "is_lookup (FindByMagicLinkToken t) = True"
| "is_lookup (FindByResetPasswordToken t) = True"
| "is_lookup (GetUsers i) = True"
| "is_lookup (FindOrganizationById i) = True"
| "is_lookup ev = False"

fun is_write :: "event \<Rightarrow> bool" where
  "is_write (Create e p) = True"
| "is_write (Update i cs) = True"
| "is_write (UpdateUserOrganizationLink oid i cs) = True"
| "is_write ev = False"

fun is_generate :: "event \<Rightarrow> bool" where
  "is_generate GenerateToken = True"
| "is_generate GeneratePinToken = True"
| "is_generate GenerateDicewarePassword = True"
| "is_generate ev = False"

fun is_mail :: "event \<Rightarrow> bool" where
  "is_mail (SendMail m) = True"
| "is_mail ev = False"

text \<open>The tables of the world, without the clock, the random source and the trace.\<close>

definition tables :: "world \<Rightarrow> user list \<times> nat \<times> user_organization_link list \<times> organization list" where
  "tables s = (users s, next_id s, users_organizations s, organizations s)"

section \<open>A small world to run the handlers in\<close>

definition example_services :: services where
  "example_services =
     \<lparr>isPasswordSecure = (\<lambda>p. 10 \<le> length p),
      hashPassword = (\<lambda>p. ''hash:'' @ p),
      validatePassword = (\<lambda>p h. h = Some (''hash:'' @ p)),
      isPhoneNumberValid = isString,
      isEmailSafeToSendTransactional = (\<lambda>e. e \<noteq> []),
      generateToken = (\<lambda>n. replicate (Suc n) CHR ''t''),
      generatePinToken = (\<lambda>n. replicate (Suc n) CHR ''7''),
      generateDicewarePassword = (\<lambda>n. replicate (Suc n) CHR ''d''),
      getContactEmail = (\<lambda>c. case c of None \<Rightarrow> None
                                | Some x \<Rightarrow> Some (''mairie-'' @ x @ ''@example.org'')),
      API_AUTH_HOST = ''https://auth.example.org''\<rparr>"

definition alice :: user where
  "alice =
     \<lparr>uid = 1, email = ''alice@example.org'', encrypted_password = Some ''hash:correct horse'',
      email_verified = False, sign_in_count = 3, last_sign_in_at = JNull,
      verify_email_token = Some ''7777'', verify_email_sent_at = JDate 1000000,
      magic_link_token = Some ''magic'', magic_link_sent_at = JDate 1000000,
      reset_password_token = Some ''reset'', reset_password_sent_at = JDate 1000000,
      given_name = JString ''Alice'', family_name = JString ''Martin'',
      phone_number = JNull, job = JString ''Maire''\<rparr>"

definition alice_link :: user_organization_link where
  "alice_link =
     \<lparr>link_organization_id = 7, link_user_id = 1,
      needs_official_contact_email_verification = True,
      official_contact_email_verification_token = Some ''dice'',
      official_contact_email_verification_sent_at = JDate 1000000\<rparr>"

definition commune :: organization where
  "commune = \<lparr>organization_id = 7, cached_code_officiel_geographique = Some ''75056'',
               cached_libelle = Some ''Paris''\<rparr>"

text \<open>
  Alice holds one token of each kind, all issued at the same instant. The clock of
  \<open>example_world\<close> is one minute after that instant, the clock of \<open>late_world\<close> two
  hours after it.
\<close>

definition example_world :: world where
  "example_world =
     \<lparr>users = [alice], next_id = 2, users_organizations = [alice_link],
      organizations = [commune], now = 1060000, rng = 0, trace = []\<rparr>"

text \<open>
  Carol's email is verified already, and her sign-in count is \<open>2^53\<close>.
\<close>

definition carol :: user where
  "carol =
     \<lparr>uid = 2, email = ''carol@example.org'', encrypted_password = Some ''hash:correct horse'',
      email_verified = True, sign_in_count = 9007199254740992, last_sign_in_at = JNull,
      verify_email_token = None, verify_email_sent_at = JNull,
      magic_link_token = None, magic_link_sent_at = JNull,
      reset_password_token = None, reset_password_sent_at = JNull,
      given_name = JString ''Carol'', family_name = JString ''Petit'',
      phone_number = JNull, job = JString ''Adjointe''\<rparr>"

definition carol_world :: world where
  "carol_world = example_world\<lparr>users := [alice, carol], next_id := 3\<rparr>"

definition late_world :: world where
  "late_world = example_world\<lparr>now := 8200000\<rparr>"

definition empty_world :: world where
  "empty_world =
     \<lparr>users = [], next_id = 1, users_organizations = [], organizations = [],
      now = 1060000, rng = 0, trace = []\<rparr>"

section \<open>Token fields and their timestamps\<close>

text \<open>
  The account has three slots, each a token column with its timestamp column; the link
  has one. A write to a token column is recorded with its slot and whether the value
  written is \<open>null\<close>, and so is a write to a timestamp column.
\<close>

datatype slot = VerifyEmailSlot | MagicLinkSlot | ResetPasswordSlot

fun token_write :: "user_change \<Rightarrow> (slot \<times> bool) option" where
  "token_write (Set_verify_email_token v) = Some (VerifyEmailSlot, v = None)"
| "token_write (Set_magic_link_token v) = Some (MagicLinkSlot, v = None)"
| "token_write (Set_reset_password_token v) = Some (ResetPasswordSlot, v = None)"
| "token_write c = None"

fun stamp_write :: "user_change \<Rightarrow> (slot \<times> bool) option" where
  "stamp_write (Set_verify_email_sent_at v) = Some (VerifyEmailSlot, v = JNull)"
| "stamp_write (Set_magic_link_sent_at v) = Some (MagicLinkSlot, v = JNull)"
| "stamp_write (Set_reset_password_sent_at v) = Some (ResetPasswordSlot, v = JNull)"
| "stamp_write c = None"

text \<open>
  The columns of one update are written together when the token writes and the timestamp
  writes name the same slots, in the same order, with the same nullness.
\<close>

definition written_together :: "user_change list \<Rightarrow> bool" where
  "written_together cs = (List.map_filter token_write cs = List.map_filter stamp_write cs)"

fun link_token_write :: "link_change \<Rightarrow> bool option" where
  "link_token_write (Set_official_contact_email_verification_token v) = Some (v = None)"
| "link_token_write c = None"

fun link_stamp_write :: "link_change \<Rightarrow> bool option" where
  "link_stamp_write (Set_official_contact_email_verification_sent_at v) = Some (v = JNull)"
| "link_stamp_write c = None"

definition link_written_together :: "link_change list \<Rightarrow> bool" where
  "link_written_together cs =
     (List.map_filter link_token_write cs = List.map_filter link_stamp_write cs)"

fun paired_write :: "event \<Rightarrow> bool" where
  "paired_write (Update i cs) = written_together cs"
| "paired_write (UpdateUserOrganizationLink oid i cs) = link_written_together cs"
| "paired_write ev = True"

definition user_pairs_ok :: "user \<Rightarrow> bool" where
  "user_pairs_ok u =
     (((verify_email_token u = None) = (verify_email_sent_at u = JNull)) \<and>
      ((magic_link_token u = None) = (magic_link_sent_at u = JNull)) \<and>
      ((reset_password_token u = None) = (reset_password_sent_at u = JNull)))"

definition link_pair_ok :: "user_organization_link \<Rightarrow> bool" where
  "link_pair_ok l =
     ((official_contact_email_verification_token l = None) =
      (official_contact_email_verification_sent_at l = JNull))"

definition pairs_ok :: "world \<Rightarrow> bool" where
  "pairs_ok s =
     (list_all user_pairs_ok (users s) \<and> list_all link_pair_ok (users_organizations s))"

section \<open>Facts about the repositories\<close>

lemma emit_simps [simp]:
  "users (emit ev s) = users s"
  "next_id (emit ev s) = next_id s"
  "users_organizations (emit ev s) = users_organizations s"
  "organizations (emit ev s) = organizations s"
  "now (emit ev s) = now s"
  "rng (emit ev s) = rng s"
  "trace (emit ev s) = trace s @ [ev]"
  by (simp_all add: emit_def)

lemma tables_emit [simp]: "tables (emit ev s) = tables s"
  by (simp add: tables_def)

lemma added_self [simp]: "added s s = []"
  by (simp add: added_def)

lemmas repo_defs = findByEmail_def findByVerifyEmailToken_def findByMagicLinkToken_def
  findByResetPasswordToken_def update_def create_def getUsers_def findOrganizationById_def
  updateUserOrganizationLink_def gen_token_def gen_pin_token_def gen_diceware_password_def
  sendMail_def

lemmas example_defs = example_services_def alice_def alice_link_def commune_def
  example_world_def late_world_def empty_world_def carol_def carol_world_def

lemmas duration_defs = RESET_PASSWORD_TOKEN_EXPIRATION_DURATION_IN_MINUTES_def
  VERIFY_EMAIL_TOKEN_EXPIRATION_DURATION_IN_MINUTES_def
  MAGIC_LINK_TOKEN_EXPIRATION_DURATION_IN_MINUTES_def
  OFFICIAL_CONTACT_EMAIL_VERIFICATION_TOKEN_EXPIRATION_DURATION_IN_MINUTES_def


section \<open>Facts about double arithmetic\<close>

lemma bit_length_le: "n < 2 ^ k \<Longrightarrow> bit_length n \<le> k"
proof (induction n arbitrary: k rule: bit_length.induct)
  case (1 n)
  show ?case
  proof (cases "n = 0")
    case True
    then show ?thesis by (simp add: bit_length.simps)
  next
    case False
    with "1.prems" obtain j where k: "k = Suc j" by (cases k) auto
    with "1.prems" have "n div 2 < 2 ^ j" by auto
    with "1.IH" [OF False] have "bit_length (n div 2) \<le> j" by blast
    with False k show ?thesis by (simp add: bit_length.simps)
  qed
qed

lemma bit_length_lower: "n \<noteq> 0 \<Longrightarrow> 2 ^ (bit_length n - 1) \<le> n"
proof (induction n rule: bit_length.induct)
  case (1 n)
  show ?case
  proof (cases "n div 2 = 0")
    case True
    with "1.prems" have "bit_length n = 1"
      by (simp add: bit_length.simps [of n] bit_length.simps [of 0])
    with "1.prems" show ?thesis by simp
  next
    case False
    with "1.IH" "1.prems" have ih: "2 ^ (bit_length (n div 2) - 1) \<le> n div 2" by blast
    have pos: "bit_length (n div 2) \<noteq> 0" using False by (simp add: bit_length.simps [of "n div 2"])
    have "bit_length n = Suc (bit_length (n div 2))" using "1.prems" by (simp add: bit_length.simps [of n])
    then have "2 ^ (bit_length n - 1) = 2 * 2 ^ (bit_length (n div 2) - 1)"
      using pos by (cases "bit_length (n div 2)") auto
    also have "\<dots> \<le> 2 * (n div 2)" using ih by simp
    also have "\<dots> \<le> n" by simp
    finally show ?thesis .
  qed
qed

lemma round_half_even_0 [simp]: "round_half_even x 0 = x"
  by (simp add: round_half_even_def)

lemma round_half_even_ge: "a * 2 ^ k \<le> x \<Longrightarrow> a \<le> round_half_even x k"
proof -
  assume h: "a * 2 ^ k \<le> x"
  have "(a * 2 ^ k) div 2 ^ k \<le> x div 2 ^ k"
    using h by (intro zdiv_mono1) simp_all
  then have "a \<le> x div 2 ^ k" by simp
  then show ?thesis by (auto simp add: round_half_even_def Let_def)
qed

lemma round_half_even_le: "x \<le> a * 2 ^ k \<Longrightarrow> round_half_even x k \<le> a"
proof -
  assume h: "x \<le> a * 2 ^ k"
  let ?q = "x div 2 ^ k" and ?r = "x mod 2 ^ k"
  have "x div 2 ^ k \<le> (a * 2 ^ k) div 2 ^ k"
    using h by (intro zdiv_mono1) simp_all
  then have qa: "?q \<le> a" by simp
  show ?thesis
  proof (cases "?q = a")
    case True
    have "x = ?q * 2 ^ k + ?r" by (simp only: div_mult_mod_eq)
    with True h have "?r \<le> 0" by simp
    moreover have "0 \<le> ?r" by simp
    ultimately have "?r = 0" by simp
    with True show ?thesis by (simp add: round_half_even_def Let_def)
  next
    case False
    with qa have "?q + 1 \<le> a" by simp
    with qa show ?thesis by (auto simp add: round_half_even_def Let_def)
  qed
qed


lemma bit_length_upper: "n < 2 ^ bit_length n"
proof (induction n rule: bit_length.induct)
  case (1 n)
  show ?case
  proof (cases "n = 0")
    case True
    then show ?thesis by simp
  next
    case False
    with "1.IH" have "n div 2 < 2 ^ bit_length (n div 2)" by blast
    then have "n < 2 * 2 ^ bit_length (n div 2)" by linarith
    with False show ?thesis by (simp add: bit_length.simps [of n])
  qed
qed

lemma bit_length_eq: "2 ^ k \<le> n \<Longrightarrow> n < 2 ^ Suc k \<Longrightarrow> bit_length n = Suc k"
proof -
  assume lo: "2 ^ k \<le> n" and hi: "n < 2 ^ Suc k"
  have "bit_length n \<le> Suc k" using hi by (rule bit_length_le)
  moreover have "\<not> bit_length n \<le> k"
  proof
    assume "bit_length n \<le> k"
    then have "(2::nat) ^ bit_length n \<le> 2 ^ k" by (rule power_increasing) simp
    with bit_length_upper [of n] lo show False by linarith
  qed
  ultimately show ?thesis by linarith
qed

lemma double_of_int_exact: "\<bar>x\<bar> < 2 ^ 53 \<Longrightarrow> double_of_int x = x"
proof -
  assume "\<bar>x\<bar> < 2 ^ 53"
  then have "nat \<bar>x\<bar> < 2 ^ 53" by simp
  then have "bit_length (nat \<bar>x\<bar>) \<le> 53" by (rule bit_length_le)
  then show ?thesis by (simp add: double_of_int_def Let_def)
qed

lemma double_of_int_54:
  "2 ^ 53 \<le> \<bar>x\<bar> \<Longrightarrow> \<bar>x\<bar> < 2 ^ 54 \<Longrightarrow> double_of_int x = round_half_even x 1 * 2"
proof -
  assume "2 ^ 53 \<le> \<bar>x\<bar>" and "\<bar>x\<bar> < 2 ^ 54"
  then have "2 ^ 53 \<le> nat \<bar>x\<bar>" and "nat \<bar>x\<bar> < 2 ^ Suc 53" by simp_all
  then have "bit_length (nat \<bar>x\<bar>) = Suc 53" by (rule bit_length_eq)
  then show ?thesis by (simp add: double_of_int_def Let_def)
qed

lemma double_of_int_large: "2 ^ 53 \<le> x \<Longrightarrow> 2 ^ 53 \<le> double_of_int x"
proof -
  assume h: "2 ^ 53 \<le> x"
  let ?n = "nat \<bar>x\<bar>"
  let ?k = "bit_length ?n - 53"
  have "(0::int) < 2 ^ 53" by simp
  with h have xpos: "0 < x" by linarith
  then have n: "int ?n = x" by simp
  have "\<not> bit_length ?n \<le> 53"
  proof
    assume "bit_length ?n \<le> 53"
    then have "(2::nat) ^ bit_length ?n \<le> 2 ^ 53" by (rule power_increasing) simp
    with bit_length_upper [of ?n] have "?n < 2 ^ 53" by linarith
    with h show False by simp
  qed
  then have bl: "bit_length ?n - 1 = 52 + ?k" and k: "1 \<le> ?k" by simp_all
  have "?n \<noteq> 0" using n xpos by linarith
  then have "2 ^ (bit_length ?n - 1) \<le> ?n" by (rule bit_length_lower)
  then have "2 ^ (52 + ?k) \<le> ?n" by (simp only: bl)
  then have "int (2 ^ (52 + ?k)) \<le> int ?n" by (simp only: of_nat_le_iff)
  then have "(2::int) ^ 52 * 2 ^ ?k \<le> x" using n by (simp add: power_add)
  then have "2 ^ 52 \<le> round_half_even x ?k" by (rule round_half_even_ge)
  moreover have "(2::int) \<le> 2 ^ ?k" using k by (metis power_increasing one_le_numeral power_one_right)
  ultimately have "(2::int) ^ 52 * 2 \<le> round_half_even x ?k * 2 ^ ?k"
    by (intro mult_mono) simp_all
  then show ?thesis by (simp add: double_of_int_def Let_def)
qed

lemma double_of_int_small: "x \<le> - (2 ^ 53) \<Longrightarrow> double_of_int x \<le> - (2 ^ 53)"
proof -
  assume h: "x \<le> - (2 ^ 53)"
  let ?n = "nat \<bar>x\<bar>"
  let ?k = "bit_length ?n - 53"
  have "(0::int) < 2 ^ 53" by simp
  with h have xneg: "x < 0" by linarith
  then have n: "int ?n = - x" by simp
  have "\<not> bit_length ?n \<le> 53"
  proof
    assume "bit_length ?n \<le> 53"
    then have "(2::nat) ^ bit_length ?n \<le> 2 ^ 53" by (rule power_increasing) simp
    with bit_length_upper [of ?n] have "?n < 2 ^ 53" by linarith
    with h show False by simp
  qed
  then have bl: "bit_length ?n - 1 = 52 + ?k" and k: "1 \<le> ?k" by simp_all
  have "?n \<noteq> 0" using n xneg by linarith
  then have "2 ^ (bit_length ?n - 1) \<le> ?n" by (rule bit_length_lower)
  then have "2 ^ (52 + ?k) \<le> ?n" by (simp only: bl)
  then have "int (2 ^ (52 + ?k)) \<le> int ?n" by (simp only: of_nat_le_iff)
  then have "x \<le> - (2 ^ 52) * 2 ^ ?k" using n by (simp add: power_add)
  then have r: "round_half_even x ?k \<le> - (2 ^ 52)" by (rule round_half_even_le)
  have p: "(2::int) \<le> 2 ^ ?k" using k by (metis power_increasing one_le_numeral power_one_right)
  have "(2::int) ^ 52 * 2 \<le> (- round_half_even x ?k) * 2 ^ ?k"
    using r p by (intro mult_mono) simp_all
  then show ?thesis by (simp add: double_of_int_def Let_def)
qed

lemma js_gt_double_of_int:
  "\<bar>c\<bar> < 2 ^ 53 \<Longrightarrow> js_gt (double_of_int x) (Num c 0) = (c < x)"
proof -
  assume c: "\<bar>c\<bar> < 2 ^ 53"
  consider "\<bar>x\<bar> < 2 ^ 53" | "2 ^ 53 \<le> x" | "x \<le> - (2 ^ 53)" by linarith
  then show ?thesis
  proof cases
    case 1
    then show ?thesis by (simp add: double_of_int_exact)
  next
    case 2
    from double_of_int_large [OF 2] c 2 have "c < double_of_int x" and "c < x" by linarith+
    then show ?thesis by simp
  next
    case 3
    from double_of_int_small [OF 3] c 3 have "\<not> c < double_of_int x" and "\<not> c < x"
      by linarith+
    then show ?thesis by simp
  qed
qed

lemma times_60e3_whole:
  "\<bar>m * 60000\<bar> < 2 ^ 53 \<Longrightarrow> times_60e3 (Num m 0) = Num (m * 60000) 0"
proof -
  assume h: "\<bar>m * 60000\<bar> < 2 ^ 53"
  have "(2::int) ^ 53 \<le> 2 ^ 1024" by (rule power_increasing) simp_all
  with h have "\<not> (2::int) ^ 1024 \<le> \<bar>m * 60000\<bar>" by linarith
  with h show ?thesis by (simp add: double_of_int_exact Let_def)
qed

lemma isExpired_whole_minutes:
  "\<bar>m * 60000\<bar> < 2 ^ 53 \<Longrightarrow> isExpired n (JDate t) (Num m 0) = (m * 60000 < n - t)"
  by (simp add: isExpired_def times_60e3_whole js_gt_double_of_int del: times_60e3.simps js_gt.simps)

section \<open>What the expiration predicate decides\<close>

text \<open>
  C4 (as stated) fails: the subtraction and the multiplication of line 36 are on doubles.
  With the clock at 8640000000000000, a date at -372000000000001 and a duration of
  150200000000 minutes, the difference 9012000000000001 is more than the duration in
  milliseconds, 9012000000000000, but it rounds to that very double, so \<open>isExpired\<close> is
  false.
\<close>

theorem isExpired_rounding_counterexample:
  "\<not> isExpired 8640000000000000 (JDate (- 372000000000001)) (Num 150200000000 0) \<and>
   (150200000000 * 60000 :: int) < 8640000000000000 - (- 372000000000001)"
  by (simp add: isExpired_def double_of_int_54 round_half_even_def Let_def)

text \<open>
  C4 (amended): for every duration, \<open>isExpired\<close> is true when the timestamp is absent
  or not a \<open>Date\<close> (\<open>undefined\<close>, \<open>null\<close>, a string). For a \<open>Date\<close> with time
  value \<open>t\<close> and a duration of a whole number \<open>m\<close> of minutes whose length in
  milliseconds is below \<open>2^53\<close>, it is true exactly when the clock reading minus \<open>t\<close>
  is strictly more than \<open>m * 60000\<close>. For any duration it is the comparison of the
  difference, rounded to a double, with the duration times 60000, rounded to a double.
  The clock reading is the only thing it reads besides its arguments.
\<close>

theorem isExpired_contract:
  "isExpired n JUndefined d \<and> isExpired n JNull d \<and> isExpired n (JString x) d \<and>
   (\<bar>m * 60000\<bar> < 2 ^ 53 \<longrightarrow> isExpired n (JDate t) (Num m 0) = (n - t > m * 60000)) \<and>
   isExpired n (JDate t) d = js_gt (double_of_int (n - t)) (times_60e3 d)"
proof -
  have "isExpired n JUndefined d" "isExpired n JNull d" "isExpired n (JString x) d"
    by (simp_all add: isExpired_def)
  moreover have "\<bar>m * 60000\<bar> < 2 ^ 53 \<longrightarrow> isExpired n (JDate t) (Num m 0) = (n - t > m * 60000)"
    using isExpired_whole_minutes [of m n t] by blast
  moreover have "isExpired n (JDate t) d = js_gt (double_of_int (n - t)) (times_60e3 d)"
    by (simp add: isExpired_def)
  ultimately show ?thesis by blast
qed

theorem isExpired_contract_witness:
  "\<bar>60 * 60000 :: int\<bar> < 2 ^ 53 \<and>
   isExpired 8200000 (JDate 1000000) (Num 60 0) \<and>
   \<not> isExpired 1060000 (JDate 1000000) (Num 60 0)"
proof -
  have b: "\<bar>60 * 60000 :: int\<bar> < 2 ^ 53" by simp
  have 1: "isExpired 8200000 (JDate 1000000) (Num 60 0) = (8200000 - 1000000 > (60 * 60000 :: int))"
    using isExpired_contract [of 8200000 NaN "[]" 60 1000000] b by blast
  have 2: "isExpired 1060000 (JDate 1000000) (Num 60 0) = (1060000 - 1000000 > (60 * 60000 :: int))"
    using isExpired_contract [of 1060000 NaN "[]" 60 1000000] b by blast
  show ?thesis using b 1 2 by simp
qed

text \<open>
  A \<open>Date\<close> object whose time value is \<open>NaN\<close> passes the \<open>instanceof\<close> test, and
  the comparison with \<open>NaN\<close> is false: such a date never expires. The repositories do
  not produce one.
\<close>

lemma isExpired_invalid_date: "\<not> isExpired n JInvalidDate d"
  by (simp add: isExpired_def)

section \<open>Login and signup\<close>

text \<open>
  C5 (as stated) fails: the count is a double, and \<open>2^53 + 1\<close> is not a double. Carol's
  count is \<open>2^53\<close>; her login succeeds and writes the count she had.
\<close>

theorem login_count_unchanged_counterexample:
  "sign_in_count carol = 9007199254740992 \<and>
   added carol_world (snd (login example_services ''carol@example.org'' ''correct horse'' carol_world))
     = [FindByEmail ''carol@example.org'',
        Update 2 [Set_sign_in_count 9007199254740992, Set_last_sign_in_at (JDate 1060000)]] \<and>
   map sign_in_count
     (users (snd (login example_services ''carol@example.org'' ''correct horse'' carol_world)))
     = [3, 9007199254740992]"
  by (simp add: login_def findByEmail_def update_def added_def apply_user_changes_def Let_def
        example_defs double_of_int_54 round_half_even_def)

text \<open>
  C5 (amended): \<open>login\<close> returns (rather than throws) exactly when an account with that
  email exists and the password verifies against its stored hash. Every failure, no
  account or wrong password, throws \<open>invalid_credentials\<close> and leaves the tables as they
  were. On success, when the count plus one is below \<open>2^53\<close> in magnitude, the only
  calls are the lookup and one update of the account, after which the rows of that
  account have a sign-in count of one more than it was and the clock reading as last
  sign-in time, every other row and table being as it was.
\<close>

theorem login_iff:
  "((\<exists>r. fst (login sv e p s) = Inr r) =
      (\<exists>u. fst (findByEmail e s) = Some u \<and> validatePassword sv p (encrypted_password u))) \<and>
   ((\<nexists>r. fst (login sv e p s) = Inr r) \<longrightarrow>
      fst (login sv e p s) = Inl invalid_credentials \<and> tables (snd (login sv e p s)) = tables s) \<and>
   (\<forall>u. fst (findByEmail e s) = Some u \<and> validatePassword sv p (encrypted_password u) \<and>
        \<bar>sign_in_count u + 1\<bar> < 2 ^ 53 \<longrightarrow>
      added s (snd (login sv e p s)) =
        [FindByEmail e,
         Update (uid u) [Set_sign_in_count (sign_in_count u + 1),
                         Set_last_sign_in_at (JDate (now s))]] \<and>
      tables (snd (login sv e p s)) =
        (map (\<lambda>x. if uid x = uid u
                   then x\<lparr>sign_in_count := sign_in_count u + 1,
                          last_sign_in_at := JDate (now s)\<rparr>
                   else x) (users s),
         next_id s, users_organizations s, organizations s))"
  by (auto simp add: login_def findByEmail_def update_def added_def tables_def
        apply_user_changes_def double_of_int_exact Let_def split: option.splits prod.splits)

theorem login_iff_witness:
  "(\<exists>r. fst (login example_services ''alice@example.org'' ''correct horse'' example_world) = Inr r) \<and>
   fst (login example_services ''alice@example.org'' ''wrong horse'' example_world)
     = Inl invalid_credentials \<and>
   fst (login example_services ''bob@example.org'' ''correct horse'' example_world)
     = Inl invalid_credentials \<and>
   added example_world
     (snd (login example_services ''alice@example.org'' ''correct horse'' example_world))
     = [FindByEmail ''alice@example.org'',
        Update 1 [Set_sign_in_count 4, Set_last_sign_in_at (JDate 1060000)]]"
proof -
  have a: "fst (findByEmail ''alice@example.org'' example_world) = Some alice"
    by (simp add: findByEmail_def example_defs)
  have b: "fst (findByEmail ''bob@example.org'' example_world) = None"
    by (simp add: findByEmail_def example_defs)
  have v: "validatePassword example_services ''correct horse'' (encrypted_password alice)"
    by (simp add: example_defs)
  have w: "\<not> validatePassword example_services ''wrong horse'' (encrypted_password alice)"
    by (simp add: example_defs)
  have c: "\<bar>sign_in_count alice + 1\<bar> < 2 ^ 53"
    by (simp add: example_defs)
  have vals: "uid alice = 1" "sign_in_count alice + 1 = 4" "now example_world = 1060000"
    by (simp_all add: example_defs)
  note c1 = conjunct1 and c2 = conjunct2
  note good = login_iff [of example_services "''alice@example.org''" "''correct horse''" example_world]
  have 1: "\<exists>r. fst (login example_services ''alice@example.org'' ''correct horse'' example_world) = Inr r"
    using good [THEN c1] a v by blast
  have 2: "fst (login example_services ''alice@example.org'' ''wrong horse'' example_world)
             = Inl invalid_credentials"
    using login_iff [of example_services "''alice@example.org''" "''wrong horse''" example_world,
        THEN c1]
      login_iff [of example_services "''alice@example.org''" "''wrong horse''" example_world,
        THEN c2, THEN c1] a w
    by (metis option.inject)
  have 3: "fst (login example_services ''bob@example.org'' ''correct horse'' example_world)
             = Inl invalid_credentials"
    using login_iff [of example_services "''bob@example.org''" "''correct horse''" example_world,
        THEN c1]
      login_iff [of example_services "''bob@example.org''" "''correct horse''" example_world,
        THEN c2, THEN c1] b
    by (metis option.distinct(1))
  have 4: "added example_world
     (snd (login example_services ''alice@example.org'' ''correct horse'' example_world))
     = [FindByEmail ''alice@example.org'',
        Update (uid alice) [Set_sign_in_count (sign_in_count alice + 1),
                            Set_last_sign_in_at (JDate (now example_world))]]"
    using good [THEN c2, THEN c2] a v c by blast
  show ?thesis using 1 2 3 4 unfolding vals by blast
qed

text \<open>
  C9: \<open>signup\<close> throws \<open>email_unavailable\<close> when an account with that email exists,
  whatever the password; it throws \<open>weak_password\<close> when no such account exists and the
  password fails the strength check; and it writes (creates the account, with the hash of
  the password) exactly when no such account exists and the password passes.
\<close>

theorem signup_priority:
  "(fst (findByEmail e s) \<noteq> None \<longrightarrow> fst (signup sv e p s) = Inl email_unavailable) \<and>
   (fst (findByEmail e s) = None \<and> \<not> isPasswordSecure sv p \<longrightarrow>
      fst (signup sv e p s) = Inl weak_password) \<and>
   ((\<exists>ev \<in> set (added s (snd (signup sv e p s))). is_write ev) =
      (fst (findByEmail e s) = None \<and> isPasswordSecure sv p)) \<and>
   (fst (findByEmail e s) = None \<and> isPasswordSecure sv p \<longrightarrow>
      (\<exists>r. fst (signup sv e p s) = Inr r) \<and>
      added s (snd (signup sv e p s)) = [FindByEmail e, Create e (Some (hashPassword sv p))])"
  by (auto simp add: signup_def findByEmail_def create_def added_def
        Let_def split: option.splits prod.splits)

theorem signup_priority_witness:
  "fst (signup example_services ''alice@example.org'' ''weak'' example_world)
     = Inl email_unavailable \<and>
   fst (signup example_services ''bob@example.org'' ''weak'' example_world) = Inl weak_password \<and>
   added example_world (snd (signup example_services ''bob@example.org'' ''correct horse'' example_world))
     = [FindByEmail ''bob@example.org'', Create ''bob@example.org'' (Some ''hash:correct horse'')]"
proof -
  have a: "fst (findByEmail ''alice@example.org'' example_world) \<noteq> None"
    by (simp add: findByEmail_def example_defs)
  have b: "fst (findByEmail ''bob@example.org'' example_world) = None"
    by (simp add: findByEmail_def example_defs)
  have w: "\<not> isPasswordSecure example_services ''weak''"
    by (simp add: example_defs)
  have g: "isPasswordSecure example_services ''correct horse''"
    by (simp add: example_defs)
  have h: "hashPassword example_services ''correct horse'' = ''hash:correct horse''"
    by (simp add: example_defs)
  have 1: "fst (signup example_services ''alice@example.org'' ''weak'' example_world)
             = Inl email_unavailable"
    using signup_priority [of "''alice@example.org''" example_world example_services "''weak''"] a
    by blast
  have 2: "fst (signup example_services ''bob@example.org'' ''weak'' example_world)
             = Inl weak_password"
    using signup_priority [of "''bob@example.org''" example_world example_services "''weak''"] b w
    by blast
  have 3: "added example_world
             (snd (signup example_services ''bob@example.org'' ''correct horse'' example_world))
           = [FindByEmail ''bob@example.org'',
              Create ''bob@example.org'' (Some (hashPassword example_services ''correct horse''))]"
    using signup_priority [of "''bob@example.org''" example_world example_services
        "''correct horse''"] b g
    by blast
  show ?thesis using 1 2 3 h by metis
qed

section \<open>The reset-password request\<close>

text \<open>
  C6: \<open>sendResetPasswordEmail\<close> returns \<open>true\<close> in every case, so its result does not
  tell whether the account exists. When no account has the email, it throws nothing, the
  tables and the random source are as they were, and the lookup is the only call: no
  token is generated, nothing is updated and no mail is sent.
\<close>

theorem sendResetPasswordEmail_unknown:
  "fst (sendResetPasswordEmail sv e s) = Inr True \<and>
   (fst (findByEmail e s) = None \<longrightarrow>
      tables (snd (sendResetPasswordEmail sv e s)) = tables s \<and>
      rng (snd (sendResetPasswordEmail sv e s)) = rng s \<and>
      added s (snd (sendResetPasswordEmail sv e s)) = [FindByEmail e])"
  by (simp add: sendResetPasswordEmail_def findByEmail_def gen_token_def update_def sendMail_def
        added_def Let_def split: option.splits prod.splits)

theorem sendResetPasswordEmail_unknown_witness:
  "fst (sendResetPasswordEmail example_services ''bob@example.org'' example_world) = Inr True \<and>
   added example_world (snd (sendResetPasswordEmail example_services ''bob@example.org'' example_world))
     = [FindByEmail ''bob@example.org'']"
proof -
  have b: "fst (findByEmail ''bob@example.org'' example_world) = None"
    by (simp add: findByEmail_def example_defs)
  show ?thesis
    using sendResetPasswordEmail_unknown [of example_services "''bob@example.org''" example_world] b
    by blast
qed

section \<open>Consuming a token\<close>




text \<open>
  C2 (as stated) fails: \<open>verifyOfficialContactEmailToken\<close> compares the token with the
  member's stored token in memory, after it has looked up the members of the organization
  and the organization by id. With an empty token it still performs both lookups, and for
  a user who is not a member the error is \<open>NotFoundError\<close>, not the invalid-token error.
\<close>

theorem empty_token_lookup_counterexample:
  "fst (verifyOfficialContactEmailToken 1 7 [] example_world) = Inl InvalidTokenError \<and>
   filter is_lookup (added example_world (snd (verifyOfficialContactEmailToken 1 7 [] example_world)))
     = [GetUsers 7, FindOrganizationById 7] \<and>
   fst (verifyOfficialContactEmailToken 2 7 [] example_world) = Inl NotFoundError"
  by (simp add: verifyOfficialContactEmailToken_def repo_defs added_def Let_def example_defs)

text \<open>
  C2 (amended): \<open>loginWithMagicLink\<close> and \<open>changePassword\<close> reject an empty token
  with their invalid-token error before any call: the world, trace included, is as it
  was. \<open>verifyOfficialContactEmailToken\<close> always looks up the members and the
  organization by id first; with an empty token it throws \<open>NotFoundError\<close> when the
  member or the organization is missing, and \<open>InvalidTokenError\<close> when both are found
  and the stored token is not the empty string (in particular when it is \<open>null\<close>), the
  tables being as they were in both cases.
\<close>

theorem empty_token_rejected:
  "loginWithMagicLink [] s = (Inl invalid_magic_link, s) \<and>
   changePassword sv [] p s = (Inl invalid_token, s) \<and>
   (let r = verifyOfficialContactEmailToken i oid [] s;
        member = find (\<lambda>(u, l). uid u = i) (fst (getUsers oid s));
        org = fst (findOrganizationById oid s)
    in filter is_lookup (added s (snd r)) = [GetUsers oid, FindOrganizationById oid] \<and>
       (member = None \<or> org = None \<longrightarrow>
          fst r = Inl NotFoundError \<and> tables (snd r) = tables s) \<and>
       (\<forall>u l. member = Some (u, l) \<and> org \<noteq> None \<and>
               official_contact_email_verification_token l \<noteq> Some [] \<longrightarrow>
          fst r = Inl InvalidTokenError \<and> tables (snd r) = tables s))"
  apply (intro conjI)
    apply (simp add: loginWithMagicLink_def)
   apply (simp add: changePassword_def)
  apply (auto simp add: verifyOfficialContactEmailToken_def repo_defs added_def tables_def Let_def
        split: option.splits prod.splits)
  done

theorem empty_token_rejected_witness:
  "loginWithMagicLink [] example_world = (Inl invalid_magic_link, example_world) \<and>
   changePassword example_services [] ''correct horse'' example_world
     = (Inl invalid_token, example_world) \<and>
   fst (verifyOfficialContactEmailToken 1 7 [] example_world) = Inl InvalidTokenError \<and>
   fst (verifyOfficialContactEmailToken 2 7 [] example_world) = Inl NotFoundError"
proof -
  have mem: "find (\<lambda>(u, l). uid u = 1) (fst (getUsers 7 example_world)) = Some (alice, alice_link)"
    and org: "fst (findOrganizationById 7 example_world) \<noteq> None"
    and tok: "official_contact_email_verification_token alice_link \<noteq> Some []"
    and nomem: "find (\<lambda>(u, l). uid u = 2) (fst (getUsers 7 example_world)) = None"
    by (simp_all add: repo_defs example_defs)
  note c1 = conjunct1 and c2 = conjunct2
  note alice_case = empty_token_rejected [of example_world example_services "''correct horse''" 1 7,
      unfolded Let_def]
  note other_case = empty_token_rejected [of example_world example_services "''correct horse''" 2 7,
      unfolded Let_def]
  have 1: "loginWithMagicLink [] example_world = (Inl invalid_magic_link, example_world)"
    by (rule alice_case [THEN c1])
  have 2: "changePassword example_services [] ''correct horse'' example_world
             = (Inl invalid_token, example_world)"
    by (rule alice_case [THEN c2, THEN c1])
  have 3: "fst (verifyOfficialContactEmailToken 1 7 [] example_world) = Inl InvalidTokenError"
    using alice_case [THEN c2, THEN c2, THEN c2, THEN c2] mem org tok by blast
  have 4: "fst (verifyOfficialContactEmailToken 2 7 [] example_world) = Inl NotFoundError"
    using other_case [THEN c2, THEN c2, THEN c2, THEN c1] nomem by blast
  show ?thesis using 1 2 3 4 by blast
qed

text \<open>
  \<open>verifyEmail\<close> has no guard on the empty token, unlike \<open>loginWithMagicLink\<close> and
  \<open>changePassword\<close>: it passes the empty token to the lookup by token.
\<close>

lemma verifyEmail_empty_token_looks_up:
  "filter is_lookup (added s (snd (verifyEmail [] s))) = [FindByVerifyEmailToken []]"
  by (auto simp add: verifyEmail_def repo_defs added_def Let_def split: option.splits prod.splits)

text \<open>
  C10: \<open>changePassword\<close> throws \<open>weak_password\<close> exactly when the token is valid
  (non-empty, found, not expired) and the password fails the strength check, so the
  strength check never speaks for an invalid token. When it throws \<open>weak_password\<close>
  nothing is written: the tables are as they were, the lookup by the same token finds
  the same account, and a retry with the same token and a secure password returns, at
  any clock reading at which the token is not expired.
\<close>

theorem changePassword_weak_password:
  "(let r = changePassword sv t p s;
        found = fst (findByResetPasswordToken t s);
        expired = (\<lambda>n u. isExpired n (reset_password_sent_at u)
                           RESET_PASSWORD_TOKEN_EXPIRATION_DURATION_IN_MINUTES)
    in ((fst r = Inl weak_password) =
          (t \<noteq> [] \<and> (\<exists>u. found = Some u \<and> \<not> expired (now s) u) \<and> \<not> isPasswordSecure sv p)) \<and>
       (fst r = Inl weak_password \<longrightarrow>
          tables (snd r) = tables s \<and>
          filter is_write (added s (snd r)) = [] \<and>
          fst (findByResetPasswordToken t (snd r)) = found \<and>
          (\<forall>u n' p'. found = Some u \<and> \<not> expired n' u \<and> isPasswordSecure sv p' \<longrightarrow>
             (\<exists>x. fst (changePassword sv t p' ((snd r)\<lparr>now := n'\<rparr>)) = Inr x))))"
  by (auto simp add: changePassword_def repo_defs added_def tables_def
      Let_def split: option.splits prod.splits)

theorem changePassword_weak_password_witness:
  "fst (changePassword example_services ''reset'' ''weak'' example_world) = Inl weak_password \<and>
   (\<exists>x. fst (changePassword example_services ''reset'' ''correct horse''
               ((snd (changePassword example_services ''reset'' ''weak'' example_world))
                  \<lparr>now := 1120000\<rparr>)) = Inr x)"
proof -
  have fr: "fst (findByResetPasswordToken ''reset'' example_world) = Some alice"
    by (simp add: repo_defs example_defs)
  have er: "\<not> isExpired (now example_world) (reset_password_sent_at alice)
                 RESET_PASSWORD_TOKEN_EXPIRATION_DURATION_IN_MINUTES"
    and er': "\<not> isExpired 1120000 (reset_password_sent_at alice)
                 RESET_PASSWORD_TOKEN_EXPIRATION_DURATION_IN_MINUTES"
    by (simp_all add: isExpired_whole_minutes duration_defs example_defs)
  have ne: "''reset'' \<noteq> []" by simp
  have weak: "\<not> isPasswordSecure example_services ''weak''"
    and sec: "isPasswordSecure example_services ''correct horse''"
    by (simp_all add: example_defs)
  note c1 = conjunct1 and c2 = conjunct2
  note inst = changePassword_weak_password [of example_services "''reset''" "''weak''" example_world,
      unfolded Let_def]
  have 1: "fst (changePassword example_services ''reset'' ''weak'' example_world) = Inl weak_password"
    using inst [THEN c1] fr er ne weak by blast
  have 2: "\<exists>x. fst (changePassword example_services ''reset'' ''correct horse''
               ((snd (changePassword example_services ''reset'' ''weak'' example_world))
                  \<lparr>now := 1120000\<rparr>)) = Inr x"
    using inst [THEN c2] 1 fr er' sec by blast
  show ?thesis using 1 2 by blast
qed

section \<open>Issuing a token\<close>

text \<open>
  C3 (as stated) fails: both flows have guards before the \<open>checkBeforeSend\<close> test.
  Carol's email is verified already, so with \<open>checkBeforeSend\<close> false the flow throws
  \<open>email_verified_already\<close>, generates no token and sends nothing.
\<close>

theorem check_before_send_verified_counterexample:
  "sendEmailAddressVerificationEmail example_services ''carol@example.org'' False carol_world
     = (Inl email_verified_already, emit (FindByEmail ''carol@example.org'') carol_world)"
  by (simp add: sendEmailAddressVerificationEmail_def findByEmail_def example_defs)

text \<open>
  C3 (amended): \<open>sendEmailAddressVerificationEmail\<close> throws \<open>email_verified_already\<close>
  for a verified account, and \<open>sendOfficialContactEmailVerificationEmail\<close> throws
  \<open>OfficialContactEmailVerificationNotNeededError\<close> when the member needs no
  verification and \<open>ApiAnnuaireError\<close> when the contact lookup fails; none of these
  writes or sends. Past these guards (the account is found and not yet verified; the
  member and the organization are found, the verification is needed and the contact
  lookup answers): when \<open>checkBeforeSend\<close> is true and the stored timestamp is not
  expired, no token is generated, nothing is written, no mail is sent and the result
  says that no email was sent (\<open>false\<close>, \<open>codeSent = false\<close>); when
  \<open>checkBeforeSend\<close> is false, or the stored timestamp is absent or expired, one token
  is generated and the random source advances, one update stores the token with the
  clock reading in the rows of that account (of that member), every other row and table
  being as it was, and exactly one mail is sent, which carries that token.
\<close>

theorem check_before_send:
  "(\<forall>u. fst (findByEmail e s) = Some u \<and> email_verified u \<longrightarrow>
      fst (sendEmailAddressVerificationEmail sv e c s) = Inl email_verified_already \<and>
      tables (snd (sendEmailAddressVerificationEmail sv e c s)) = tables s \<and>
      added s (snd (sendEmailAddressVerificationEmail sv e c s)) = [FindByEmail e]) \<and>
   (\<forall>u. fst (findByEmail e s) = Some u \<and> \<not> email_verified u \<longrightarrow>
      (let r = sendEmailAddressVerificationEmail sv e c s;
           expired = isExpired (now s) (verify_email_sent_at u)
                       VERIFY_EMAIL_TOKEN_EXPIRATION_DURATION_IN_MINUTES;
           tok = generatePinToken sv (rng s)
       in (c \<and> \<not> expired \<longrightarrow>
             fst r = Inr False \<and> tables (snd r) = tables s \<and> rng (snd r) = rng s \<and>
             added s (snd r) = [FindByEmail e]) \<and>
          (\<not> c \<or> verify_email_sent_at u = JNull \<or> expired \<longrightarrow>
             fst r = Inr True \<and>
             filter is_generate (added s (snd r)) = [GeneratePinToken] \<and>
             rng (snd r) = Suc (rng s) \<and>
             filter is_write (added s (snd r)) =
               [Update (uid u) [Set_verify_email_token (Some tok),
                                Set_verify_email_sent_at (JDate (now s))]] \<and>
             tables (snd r) =
               (map (\<lambda>x. if uid x = uid u
                          then x\<lparr>verify_email_token := Some tok,
                                 verify_email_sent_at := JDate (now s)\<rparr>
                          else x) (users s),
                next_id s, users_organizations s, organizations s) \<and>
             (\<exists>m. filter is_mail (added s (snd r)) = [SendMail m] \<and> to m = [email u] \<and>
                  (''verify_email_token'', JString tok) \<in> set (params m))))) \<and>
   (\<forall>u l g. find (\<lambda>(u, l). uid u = i) (fst (getUsers oid s)) = Some (u, l) \<and>
       fst (findOrganizationById oid s) = Some g \<and>
       (\<not> needs_official_contact_email_verification l \<or>
        getContactEmail sv (cached_code_officiel_geographique g) = None) \<longrightarrow>
      fst (sendOfficialContactEmailVerificationEmail sv i oid c s) =
        (if \<not> needs_official_contact_email_verification l
         then Inl OfficialContactEmailVerificationNotNeededError else Inl ApiAnnuaireError) \<and>
      tables (snd (sendOfficialContactEmailVerificationEmail sv i oid c s)) = tables s \<and>
      filter (\<lambda>ev. is_generate ev \<or> is_write ev \<or> is_mail ev)
        (added s (snd (sendOfficialContactEmailVerificationEmail sv i oid c s))) = []) \<and>
   (\<forall>u l g ce. find (\<lambda>(u, l). uid u = i) (fst (getUsers oid s)) = Some (u, l) \<and>
       fst (findOrganizationById oid s) = Some g \<and>
       needs_official_contact_email_verification l \<and>
       getContactEmail sv (cached_code_officiel_geographique g) = Some ce \<longrightarrow>
      (let r = sendOfficialContactEmailVerificationEmail sv i oid c s;
           expired = isExpired (now s) (official_contact_email_verification_sent_at l)
                       OFFICIAL_CONTACT_EMAIL_VERIFICATION_TOKEN_EXPIRATION_DURATION_IN_MINUTES;
           tok = generateDicewarePassword sv (rng s)
       in (c \<and> \<not> expired \<longrightarrow>
             fst r = Inr \<lparr>codeSent = False, contactEmail = ce, libelle = cached_libelle g\<rparr> \<and>
             tables (snd r) = tables s \<and> rng (snd r) = rng s \<and>
             filter (\<lambda>ev. is_generate ev \<or> is_write ev \<or> is_mail ev) (added s (snd r)) = []) \<and>
          (\<not> c \<or> official_contact_email_verification_sent_at l = JNull \<or> expired \<longrightarrow>
             fst r = Inr \<lparr>codeSent = True, contactEmail = ce, libelle = cached_libelle g\<rparr> \<and>
             filter is_generate (added s (snd r)) = [GenerateDicewarePassword] \<and>
             rng (snd r) = Suc (rng s) \<and>
             filter is_write (added s (snd r)) =
               [UpdateUserOrganizationLink oid i
                  [Set_official_contact_email_verification_token (Some tok),
                   Set_official_contact_email_verification_sent_at (JDate (now s))]] \<and>
             tables (snd r) =
               (users s, next_id s,
                map (\<lambda>l. if is_link oid i l
                          then l\<lparr>official_contact_email_verification_token := Some tok,
                                 official_contact_email_verification_sent_at := JDate (now s)\<rparr>
                          else l) (users_organizations s),
                organizations s) \<and>
             (\<exists>m. filter is_mail (added s (snd r)) = [SendMail m] \<and> to m = [ce] \<and>
                  (''official_contact_email_verification_token'', JString tok)
                    \<in> set (params m)))))"
  apply (intro conjI)
     apply (auto simp add: sendEmailAddressVerificationEmail_def repo_defs added_def tables_def
      Let_def split: option.splits prod.splits)[1]
    apply (auto simp add: sendEmailAddressVerificationEmail_def repo_defs added_def tables_def
      Let_def isExpired_def apply_user_changes_def split: option.splits prod.splits)[1]
   apply (auto simp add: sendOfficialContactEmailVerificationEmail_def repo_defs added_def
      tables_def Let_def split: option.splits prod.splits)[1]
  apply (auto simp add: sendOfficialContactEmailVerificationEmail_def repo_defs added_def
      tables_def Let_def isExpired_def apply_link_changes_def split: option.splits prod.splits)[1]
  done

theorem check_before_send_witness:
  "fst (sendEmailAddressVerificationEmail example_services ''alice@example.org'' True example_world)
     = Inr False \<and>
   fst (sendEmailAddressVerificationEmail example_services ''alice@example.org'' False example_world)
     = Inr True \<and>
   fst (sendEmailAddressVerificationEmail example_services ''alice@example.org'' True late_world)
     = Inr True \<and>
   fst (sendOfficialContactEmailVerificationEmail example_services 1 7 True example_world)
     = Inr \<lparr>codeSent = False, contactEmail = ''mairie-75056@example.org'', libelle = Some ''Paris''\<rparr> \<and>
   fst (sendOfficialContactEmailVerificationEmail example_services 1 7 False example_world)
     = Inr \<lparr>codeSent = True, contactEmail = ''mairie-75056@example.org'', libelle = Some ''Paris''\<rparr> \<and>
   fst (sendEmailAddressVerificationEmail example_services ''carol@example.org'' False carol_world)
     = Inl email_verified_already \<and>
   map (\<lambda>u. (verify_email_token u, verify_email_sent_at u))
     (users (snd (sendEmailAddressVerificationEmail example_services ''alice@example.org'' False
                    example_world))) = [(Some ''7'', JDate 1060000)]"
proof -
  have fa: "fst (findByEmail ''alice@example.org'' example_world) = Some alice"
    and fl: "fst (findByEmail ''alice@example.org'' late_world) = Some alice"
    and fc: "fst (findByEmail ''carol@example.org'' carol_world) = Some carol"
    and nv: "\<not> email_verified alice"
    and cv: "email_verified carol"
    by (simp_all add: repo_defs example_defs)
  have mem: "find (\<lambda>(u, l). uid u = 1) (fst (getUsers 7 example_world)) = Some (alice, alice_link)"
    and org: "fst (findOrganizationById 7 example_world) = Some commune"
    and needs: "needs_official_contact_email_verification alice_link"
    and ce: "getContactEmail example_services (cached_code_officiel_geographique commune)
               = Some ''mairie-75056@example.org''"
    and lib: "cached_libelle commune = Some ''Paris''"
    by (simp_all add: repo_defs example_defs)
  have ev: "\<not> isExpired (now example_world) (verify_email_sent_at alice)
                 VERIFY_EMAIL_TOKEN_EXPIRATION_DURATION_IN_MINUTES"
    and el: "isExpired (now late_world) (verify_email_sent_at alice)
                 VERIFY_EMAIL_TOKEN_EXPIRATION_DURATION_IN_MINUTES"
    and ec: "\<not> isExpired (now example_world) (official_contact_email_verification_sent_at alice_link)
                 OFFICIAL_CONTACT_EMAIL_VERIFICATION_TOKEN_EXPIRATION_DURATION_IN_MINUTES"
    by (simp_all add: isExpired_whole_minutes duration_defs example_defs)
  note c1 = conjunct1 and c2 = conjunct2
  note chk = check_before_send [of "''alice@example.org''" example_world example_services True 1 7,
      unfolded Let_def]
  note nochk = check_before_send [of "''alice@example.org''" example_world example_services False 1 7,
      unfolded Let_def]
  note late = check_before_send [of "''alice@example.org''" late_world example_services True 1 7,
      unfolded Let_def]
  note verified = check_before_send [of "''carol@example.org''" carol_world example_services False
      1 7, unfolded Let_def]
  have 1: "fst (sendEmailAddressVerificationEmail example_services ''alice@example.org'' True
                  example_world) = Inr False"
    using chk [THEN c2, THEN c1] fa nv ev by blast
  have 2: "fst (sendEmailAddressVerificationEmail example_services ''alice@example.org'' False
                  example_world) = Inr True"
    using nochk [THEN c2, THEN c1] fa nv by blast
  have 3: "fst (sendEmailAddressVerificationEmail example_services ''alice@example.org'' True
                  late_world) = Inr True"
    using late [THEN c2, THEN c1] fl nv el by blast
  have 4: "fst (sendOfficialContactEmailVerificationEmail example_services 1 7 True example_world)
     = Inr \<lparr>codeSent = False, contactEmail = ''mairie-75056@example.org'',
            libelle = cached_libelle commune\<rparr>"
    using chk [THEN c2, THEN c2, THEN c2] mem org needs ce ec by blast
  have 5: "fst (sendOfficialContactEmailVerificationEmail example_services 1 7 False example_world)
     = Inr \<lparr>codeSent = True, contactEmail = ''mairie-75056@example.org'',
            libelle = cached_libelle commune\<rparr>"
    using nochk [THEN c2, THEN c2, THEN c2] mem org needs ce by blast
  have 6: "fst (sendEmailAddressVerificationEmail example_services ''carol@example.org'' False
                  carol_world) = Inl email_verified_already"
    using verified [THEN c1] fc cv by blast
  have "tables (snd (sendEmailAddressVerificationEmail example_services ''alice@example.org''
                       False example_world)) =
          (map (\<lambda>x. if uid x = uid alice
                     then x\<lparr>verify_email_token := Some (generatePinToken example_services
                                                          (rng example_world)),
                            verify_email_sent_at := JDate (now example_world)\<rparr>
                     else x) (users example_world),
           next_id example_world, users_organizations example_world,
           organizations example_world)"
    using nochk [THEN c2, THEN c1] fa nv by blast
  then have 7: "map (\<lambda>u. (verify_email_token u, verify_email_sent_at u))
     (users (snd (sendEmailAddressVerificationEmail example_services ''alice@example.org'' False
                    example_world))) = [(Some ''7'', JDate 1060000)]"
    by (simp add: tables_def example_defs)
  show ?thesis using 1 2 3 4 5 6 7 unfolding lib by blast
qed




section \<open>Tokens and timestamps are null together\<close>

lemma pairs_ok_emit [simp]: "pairs_ok (emit ev s) = pairs_ok s"
  by (simp add: pairs_ok_def)

lemma pairs_ok_now [simp]: "pairs_ok (s\<lparr>now := t\<rparr>) = pairs_ok s"
  by (simp add: pairs_ok_def)

lemma pairs_ok_rng [simp]: "pairs_ok (s\<lparr>rng := n\<rparr>) = pairs_ok s"
  by (simp add: pairs_ok_def)

lemma update_keeps_pairs:
  assumes "pairs_ok s" and "\<And>u. user_pairs_ok u \<Longrightarrow> user_pairs_ok (apply_user_changes cs u)"
  shows "pairs_ok (snd (update i cs s))"
  using assms by (auto simp add: update_def pairs_ok_def list_all_iff Let_def)

lemma link_update_keeps_pairs:
  assumes "pairs_ok s" and "\<And>l. link_pair_ok l \<Longrightarrow> link_pair_ok (apply_link_changes cs l)"
  shows "pairs_ok (snd (updateUserOrganizationLink oid i cs s))"
  using assms by (auto simp add: updateUserOrganizationLink_def pairs_ok_def list_all_iff Let_def)

lemma create_keeps_pairs: "pairs_ok s \<Longrightarrow> pairs_ok (snd (create e pw s))"
  by (simp add: create_def pairs_ok_def user_pairs_ok_def Let_def)

lemmas pair_defs = user_pairs_ok_def link_pair_ok_def apply_user_changes_def
  apply_link_changes_def

lemma handle_keeps_pairs: "pairs_ok s \<Longrightarrow> pairs_ok (handle sv r s)"
proof (cases r)
  case (StartLogin e)
  assume "pairs_ok s"
  then show ?thesis unfolding StartLogin
    by (simp add: startLogin_def findByEmail_def Let_def split_beta)
next
  case (Login e p)
  assume "pairs_ok s"
  then show ?thesis unfolding Login
    by (auto simp add: login_def findByEmail_def Let_def split_beta pair_defs
        intro!: update_keeps_pairs split: option.splits)
next
  case (Signup e p)
  assume "pairs_ok s"
  then show ?thesis unfolding Signup
    by (auto simp add: signup_def findByEmail_def Let_def split_beta intro!: create_keeps_pairs)
next
  case (SendEmailAddressVerificationEmail e c)
  assume "pairs_ok s"
  then show ?thesis unfolding SendEmailAddressVerificationEmail
    by (auto simp add: sendEmailAddressVerificationEmail_def findByEmail_def gen_pin_token_def
          sendMail_def Let_def split_beta pair_defs
        intro!: update_keeps_pairs split: option.splits)
next
  case (VerifyEmail t)
  assume "pairs_ok s"
  then show ?thesis unfolding VerifyEmail
    by (auto simp add: verifyEmail_def findByVerifyEmailToken_def Let_def split_beta pair_defs
        intro!: update_keeps_pairs split: option.splits)
next
  case (SendSendMagicLinkEmail e)
  assume "pairs_ok s"
  then show ?thesis unfolding SendSendMagicLinkEmail
    by (auto simp add: sendSendMagicLinkEmail_def findByEmail_def gen_token_def
          sendMail_def Let_def split_beta pair_defs
        intro!: update_keeps_pairs create_keeps_pairs split: option.splits)
next
  case (LoginWithMagicLink t)
  assume "pairs_ok s"
  then show ?thesis unfolding LoginWithMagicLink
    by (auto simp add: loginWithMagicLink_def findByMagicLinkToken_def Let_def split_beta
          pair_defs
        intro!: update_keeps_pairs split: option.splits)
next
  case (SendResetPasswordEmail e)
  assume "pairs_ok s"
  then show ?thesis unfolding SendResetPasswordEmail
    by (auto simp add: sendResetPasswordEmail_def findByEmail_def gen_token_def
          sendMail_def Let_def split_beta pair_defs
        intro!: update_keeps_pairs split: option.splits)
next
  case (ChangePassword t p)
  assume "pairs_ok s"
  then show ?thesis unfolding ChangePassword
    by (auto simp add: changePassword_def findByResetPasswordToken_def Let_def split_beta
          pair_defs
        intro!: update_keeps_pairs split: option.splits)
next
  case (UpdatePersonalInformations i g f p j)
  assume "pairs_ok s"
  then show ?thesis unfolding UpdatePersonalInformations
    by (auto simp add: updatePersonalInformations_def Let_def split_beta pair_defs
        intro!: update_keeps_pairs)
next
  case (SendOfficialContactEmailVerificationEmail i oid c)
  assume "pairs_ok s"
  then show ?thesis unfolding SendOfficialContactEmailVerificationEmail
    by (auto simp add: sendOfficialContactEmailVerificationEmail_def getUsers_def
          findOrganizationById_def gen_diceware_password_def sendMail_def Let_def split_beta
          pair_defs
        intro!: link_update_keeps_pairs split: option.splits)
next
  case (VerifyOfficialContactEmailToken i oid t)
  assume "pairs_ok s"
  then show ?thesis unfolding VerifyOfficialContactEmailToken
    by (auto simp add: verifyOfficialContactEmailToken_def getUsers_def
          findOrganizationById_def Let_def split_beta pair_defs
        intro!: link_update_keeps_pairs split: option.splits)
qed

lemma handle_trace:
  "\<exists>evs. trace (handle sv r s) = trace s @ evs \<and> list_all paired_write evs"
  by (cases r)
     (auto simp add: startLogin_def login_def signup_def sendEmailAddressVerificationEmail_def
        verifyEmail_def sendSendMagicLinkEmail_def loginWithMagicLink_def
        sendResetPasswordEmail_def changePassword_def updatePersonalInformations_def
        sendOfficialContactEmailVerificationEmail_def verifyOfficialContactEmailToken_def
        repo_defs written_together_def link_written_together_def
        Let_def split_beta split: option.splits)

lemma run_keeps_pairs:
  "pairs_ok s \<Longrightarrow>
   pairs_ok (run sv rs s) \<and>
   (\<exists>evs. trace (run sv rs s) = trace s @ evs \<and> list_all paired_write evs)"
proof (induction rs arbitrary: s)
  case Nil
  then show ?case by simp
next
  case (Cons a rs)
  obtain t r where a: "a = (t, r)" by (cases a)
  let ?s1 = "handle sv r (s\<lparr>now := t\<rparr>)"
  have ok1: "pairs_ok ?s1" using Cons.prems by (simp add: handle_keeps_pairs)
  obtain evs1 where t1: "trace ?s1 = trace s @ evs1" "list_all paired_write evs1"
    using handle_trace [of sv r "s\<lparr>now := t\<rparr>"] by auto
  from Cons.IH [OF ok1] obtain evs2 where
    ok2: "pairs_ok (run sv rs ?s1)" and
    t2: "trace (run sv rs ?s1) = trace ?s1 @ evs2" "list_all paired_write evs2"
    by blast
  have "trace (run sv (a # rs) s) = trace s @ (evs1 @ evs2)"
    using a t1 t2 by simp
  moreover have "list_all paired_write (evs1 @ evs2)" using t1 t2 by simp
  ultimately show ?case using a ok2 by auto
qed

text \<open>
  C8: every update that a handler issues writes a token column and its timestamp column
  together, both \<open>null\<close> or both not \<open>null\<close>; and if in every row each token is
  \<open>null\<close> exactly when its timestamp is, then this is still so after any sequence of
  requests, served at any clock readings.
\<close>

theorem token_pairs_invariant:
  "pairs_ok s \<Longrightarrow>
   pairs_ok (run sv rs s) \<and> list_all paired_write (added s (run sv rs s))"
  using run_keeps_pairs [of s sv rs] by (auto simp add: added_def)

theorem token_pairs_invariant_witness:
  "pairs_ok example_world \<and>
   pairs_ok (run example_services
               [(1060000, SendResetPasswordEmail ''alice@example.org''),
                (1120000, ChangePassword ''t'' ''correct horse''),
                (1180000, SendOfficialContactEmailVerificationEmail 1 7 False),
                (1240000, VerifyOfficialContactEmailToken 1 7 ''dd'')] example_world)"
proof -
  have h: "pairs_ok example_world"
    by (simp add: pairs_ok_def user_pairs_ok_def link_pair_ok_def example_defs)
  show ?thesis using h token_pairs_invariant [OF h] by blast
qed

end
